theory Spec2Isabelle
  imports Complex_Main
begin

section \<open>Numbers, dictionaries and errors\<close>

text \<open>
  Python floats are modelled as exact reals, so every statement below is about the
  arithmetic the code writes down, not about binary rounding error. The one rounding
  the code performs on purpose, \<^verbatim>\<open>round(x, 2)\<close>, is modelled exactly: the nearest multiple
  of 1/100, ties going to the even multiple.
\<close>

definition py_round2 :: "real \<Rightarrow> real" where
  "py_round2 x =
     (let y = x * 100; f = \<lfloor>y\<rfloor>; d = y - of_int f
      in (if d < 1 / 2 then of_int f
          else if 1 / 2 < d then of_int (f + 1)
          else if even f then of_int f else of_int (f + 1)) / 100)"

datatype error = KeyError | ValueError

type_synonym ticker = string

text \<open>A Python dict in insertion order: an association list whose keys are distinct.\<close>

type_synonym 'v dict = "(ticker \<times> 'v) list"

text \<open>\<^verbatim>\<open>d.get(k, default)\<close> and \<^verbatim>\<open>d[k]\<close> (which raises KeyError on a missing key).\<close>

definition dict_get :: "'v dict \<Rightarrow> ticker \<Rightarrow> 'v \<Rightarrow> 'v" where
  "dict_get d k dflt = (case map_of d k of Some v \<Rightarrow> v | None \<Rightarrow> dflt)"

definition dict_item :: "'v dict \<Rightarrow> ticker \<Rightarrow> error + 'v" where
  "dict_item d k = (case map_of d k of Some v \<Rightarrow> Inr v | None \<Rightarrow> Inl KeyError)"

section \<open>Data model\<close>

text \<open>The dict returned by \<^verbatim>\<open>run_factor_regression\<close> and \<^verbatim>\<open>_empty_result\<close>.\<close>

record regression_result =
  ticker :: ticker
  beta_mkt :: real
  beta_smb :: real
  beta_hml :: real
  alpha :: real
  r_squared :: real
  residual_variance :: real
  n_observations :: nat
  sufficient_data :: bool

text \<open>One entry of \<^verbatim>\<open>stock_contributions\<close>.\<close>

record stock_contribution =
  market_contribution :: real
  smb_contribution :: real
  hml_contribution :: real
  idio_contribution :: real
  weight :: real

text \<open>
  The dict returned by \<^verbatim>\<open>decompose_portfolio_variance\<close>. The key
  \<^verbatim>\<open>cross_factor_pct\<close> is not present in every returned dict, so its field is optional:
  \<open>None\<close> is an absent key.
\<close>

record variance_decomposition =
  market_pct :: real
  smb_pct :: real
  hml_pct :: real
  idiosyncratic_pct :: real
  cross_factor_pct :: "real option"
  total_annual_vol :: real
  total_daily_var :: real
  stock_contributions :: "stock_contribution dict"

section \<open>Variance decomposition\<close>

text \<open>
  A vector is a list read with \<open>!\<close> below its length, an array given as data (the
  loadings \<^verbatim>\<open>B\<close>, the factor covariance \<^verbatim>\<open>F\<close>) is a list of rows, and an array the code
  computes (\<^verbatim>\<open>np.diag\<close>, \<^verbatim>\<open>B @ F @ B.T\<close>, their sum) is a function of its two indices.
  The factor covariance must be 3 by 3 (indices 0, 1, 2 for Mkt-RF, SMB, HML): with any
  other shape the product \<^verbatim>\<open>B @ F @ B.T\<close> raises ValueError.
\<close>

type_synonym matrix = "nat \<Rightarrow> nat \<Rightarrow> real"

definition is_3x3 :: "real list list \<Rightarrow> bool" where
  "is_3x3 F = (length F = 3 \<and> list_all (\<lambda>row. length row = 3) F)"

text \<open>
  \<^verbatim>\<open>B = np.array([[betas[t]["beta_mkt"], betas[t]["beta_smb"], betas[t]["beta_hml"]] for t in tickers])\<close>:
  a ticker without an entry in \<^verbatim>\<open>betas\<close> raises KeyError.
\<close>

fun build_B :: "ticker list \<Rightarrow> regression_result dict \<Rightarrow> error + real list list" where
  "build_B [] betas = Inr []"
| "build_B (t # ts) betas =
     (case dict_item betas t of
        Inl e \<Rightarrow> Inl e
      | Inr r \<Rightarrow>
          (case build_B ts betas of
             Inl e \<Rightarrow> Inl e
           | Inr rows \<Rightarrow> Inr ([beta_mkt r, beta_smb r, beta_hml r] # rows)))"

definition np_diag :: "real list \<Rightarrow> matrix" where
  "np_diag ds = (\<lambda>i j. if i = j then ds ! i else 0)"

text \<open>\<^verbatim>\<open>B @ F @ B.T\<close>, evaluated left to right.\<close>

definition systematic_cov :: "real list list \<Rightarrow> real list list \<Rightarrow> matrix" where
  "systematic_cov B F = (\<lambda>i j. \<Sum>l<3. (\<Sum>k<3. B ! i ! k * F ! k ! l) * B ! j ! l)"

text \<open>\<^verbatim>\<open>w @ M @ w\<close> for a vector of length \<open>n\<close> and an \<open>n\<close> by \<open>n\<close> array.\<close>

definition quad_form :: "nat \<Rightarrow> real list \<Rightarrow> matrix \<Rightarrow> real" where
  "quad_form n w M = (\<Sum>j<n. (\<Sum>i<n. w ! i * M i j) * w ! j)"

text \<open>
  The loop body of lines 81 to 86:
  \<^verbatim>\<open>max(float((w * b_k) @ (w * b_k)) * F[k, k], 0.0)\<close> with \<^verbatim>\<open>b_k = B[:, k]\<close>.
\<close>

definition pure_contribution ::
  "nat \<Rightarrow> real list \<Rightarrow> real list list \<Rightarrow> real list list \<Rightarrow> nat \<Rightarrow> real" where
  "pure_contribution n w B F k =
     max ((\<Sum>i<n. (w ! i * B ! i ! k) * (w ! i * B ! i ! k)) * F ! k ! k) 0"

text \<open>
  The loop body of lines 97 to 100, for one factor: its raw contribution \<open>r\<close> absorbs
  \<^verbatim>\<open>cross_terms * share\<close> with \<^verbatim>\<open>share = r / pure_factor_sum\<close>, under the guard
  \<^verbatim>\<open>pure_factor_sum > 0 and cross_terms != 0\<close>.
\<close>

definition apportion :: "real \<Rightarrow> real \<Rightarrow> real \<Rightarrow> real" where
  "apportion pure_factor_sum cross_terms r =
     (if pure_factor_sum > 0 \<and> cross_terms \<noteq> 0
      then r + cross_terms * (r / pure_factor_sum) else r)"

text \<open>Lines 115 to 119: rescale the clamped percentages when their sum is positive.\<close>

definition renormalize :: "real list \<Rightarrow> real list" where
  "renormalize raw_pcts =
     (let total_raw = sum_list raw_pcts
      in if total_raw > 0 then map (\<lambda>p. p * (100 / total_raw)) raw_pcts else raw_pcts)"

definition compute_stock_contributions ::
  "ticker list \<Rightarrow> real list \<Rightarrow> real list list \<Rightarrow> real list list \<Rightarrow> matrix \<Rightarrow> real
    \<Rightarrow> stock_contribution dict" where
  "compute_stock_contributions tickers w B F D total_var =
     (let n = length tickers
      in map (\<lambda>(i, t).
           let mkt_contrib = w ! i * B ! i ! 0 * (\<Sum>j<n. w ! j * B ! j ! 0) * F ! 0 ! 0;
               smb_contrib = w ! i * B ! i ! 1 * (\<Sum>j<n. w ! j * B ! j ! 1) * F ! 1 ! 1;
               hml_contrib = w ! i * B ! i ! 2 * (\<Sum>j<n. w ! j * B ! j ! 2) * F ! 2 ! 2;
               idio_contrib = (w ! i)\<^sup>2 * D i i
           in (t, \<lparr>market_contribution =
                     (if total_var > 0 then max (mkt_contrib / total_var * 100) 0 else 0),
                   smb_contribution =
                     (if total_var > 0 then max (smb_contrib / total_var * 100) 0 else 0),
                   hml_contribution =
                     (if total_var > 0 then max (hml_contrib / total_var * 100) 0 else 0),
                   idio_contribution =
                     (if total_var > 0 then max (idio_contrib / total_var * 100) 0 else 0),
                   weight = w ! i\<rparr>))
         (enumerate 0 tickers))"

definition zero_result :: "ticker list \<Rightarrow> real dict \<Rightarrow> variance_decomposition" where
  "zero_result tickers weights =
     \<lparr>market_pct = 25, smb_pct = 25, hml_pct = 25, idiosyncratic_pct = 25,
      cross_factor_pct = None,
      total_annual_vol = 0, total_daily_var = 0,
      stock_contributions =
        map (\<lambda>t. (t, \<lparr>market_contribution = 0, smb_contribution = 0,
                       hml_contribution = 0, idio_contribution = 0,
                       weight = dict_get weights t 0\<rparr>)) tickers\<rparr>"

text \<open>
  Lines 75 to 138: everything \<^verbatim>\<open>decompose_portfolio_variance\<close> does once the total
  variance is known to be positive.
\<close>

definition decompose_body ::
  "ticker list \<Rightarrow> real list \<Rightarrow> real list list \<Rightarrow> real list list \<Rightarrow> matrix \<Rightarrow> matrix
    \<Rightarrow> real \<Rightarrow> variance_decomposition" where
  "decompose_body tickers w B F D syscov total_var =
     (let n = length tickers;
          raw_contributions = map (pure_contribution n w B F) [0, 1, 2];
          total_systematic = quad_form n w syscov;
          pure_factor_sum = sum_list raw_contributions;
          cross_terms = total_systematic - pure_factor_sum;
          idio_var = quad_form n w D;
          raw_contributions = map (apportion pure_factor_sum cross_terms) raw_contributions;
          market_pct = raw_contributions ! 0 / total_var * 100;
          smb_pct = raw_contributions ! 1 / total_var * 100;
          hml_pct = raw_contributions ! 2 / total_var * 100;
          idio_pct = idio_var / total_var * 100;
          raw_pcts = renormalize [max market_pct 0, max smb_pct 0, max hml_pct 0, max idio_pct 0];
          annual_vol = sqrt (total_var * 252) * 100
      in \<lparr>market_pct = py_round2 (raw_pcts ! 0),
          smb_pct = py_round2 (raw_pcts ! 1),
          hml_pct = py_round2 (raw_pcts ! 2),
          idiosyncratic_pct = py_round2 (raw_pcts ! 3),
          cross_factor_pct =
            Some (if total_var > 0 then py_round2 (cross_terms / total_var * 100) else 0),
          total_annual_vol = py_round2 annual_vol,
          total_daily_var = total_var,
          stock_contributions = compute_stock_contributions tickers w B F D total_var\<rparr>)"

text \<open>
  \<^verbatim>\<open>decompose_portfolio_variance\<close>. The weight vector
  \<^verbatim>\<open>[weights[t] for t in tickers]\<close> is the dict's values in key order. With no ticker
  at all \<^verbatim>\<open>B\<close> is an empty one-dimensional array and \<^verbatim>\<open>B @ F\<close> raises ValueError, as
  it does when \<^verbatim>\<open>F\<close> is not 3 by 3.
\<close>

definition decompose_portfolio_variance ::
  "real dict \<Rightarrow> regression_result dict \<Rightarrow> real list list \<Rightarrow> real dict
    \<Rightarrow> error + variance_decomposition" where
  "decompose_portfolio_variance weights betas factor_cov residual_vars =
     (let tickers = map fst weights;
          n = length tickers;
          w = map snd weights
      in case build_B tickers betas of
           Inl e \<Rightarrow> Inl e
         | Inr B \<Rightarrow>
             if n = 0 \<or> \<not> is_3x3 factor_cov then Inl ValueError
             else
               let D = np_diag (map (\<lambda>t. dict_get residual_vars t 0) tickers);
                   F = factor_cov;
                   syscov = systematic_cov B F;
                   sigma = (\<lambda>i j. syscov i j + D i j);
                   total_var = quad_form n w sigma
               in if total_var \<le> 0 then Inr (zero_result tickers weights)
                  else Inr (decompose_body tickers w B F D syscov total_var))"

text \<open>
  The total portfolio variance as line 70 computes it, or the exception raised
  before that line is reached.
\<close>

definition portfolio_total_var ::
  "real dict \<Rightarrow> regression_result dict \<Rightarrow> real list list \<Rightarrow> real dict \<Rightarrow> error + real" where
  "portfolio_total_var weights betas factor_cov residual_vars =
     (let tickers = map fst weights;
          n = length tickers;
          w = map snd weights
      in case build_B tickers betas of
           Inl e \<Rightarrow> Inl e
         | Inr B \<Rightarrow>
             if n = 0 \<or> \<not> is_3x3 factor_cov then Inl ValueError
             else
               let D = np_diag (map (\<lambda>t. dict_get residual_vars t 0) tickers);
                   syscov = systematic_cov B factor_cov;
                   sigma = (\<lambda>i j. syscov i j + D i j)
               in Inr (quad_form n w sigma))"

text \<open>
  The four bucket variances after the apportionment of lines 97 to 100 (market, SMB,
  HML, idiosyncratic), and the clamped percentages of lines 103 to 114, as functions of
  the inputs: \<^verbatim>\<open>decompose_body\<close> computes exactly these (lemma \<open>decompose_body_pcts\<close>).
\<close>

definition bucket_vars ::
  "nat \<Rightarrow> real list \<Rightarrow> real list list \<Rightarrow> real list list \<Rightarrow> matrix \<Rightarrow> matrix \<Rightarrow> real list" where
  "bucket_vars n w B F syscov D =
     (let ps = pure_contribution n w B F 0 + pure_contribution n w B F 1
                 + pure_contribution n w B F 2;
          x = quad_form n w syscov - ps
      in [apportion ps x (pure_contribution n w B F 0),
          apportion ps x (pure_contribution n w B F 1),
          apportion ps x (pure_contribution n w B F 2),
          quad_form n w D])"

definition clamped_pcts :: "real \<Rightarrow> real list \<Rightarrow> real list" where
  "clamped_pcts tv vs = map (\<lambda>v. max (v / tv * 100) 0) vs"

section \<open>Example inputs\<close>

text \<open>A regression result with the given three loadings, as a sufficient-data fit.\<close>

definition loadings :: "ticker \<Rightarrow> real \<Rightarrow> real \<Rightarrow> real \<Rightarrow> regression_result" where
  "loadings t bm bs bh =
     \<lparr>ticker = t, beta_mkt = bm, beta_smb = bs, beta_hml = bh, alpha = 0, r_squared = 1,
      residual_variance = 0, n_observations = 252, sufficient_data = True\<rparr>"

text \<open>
  One instrument of weight 1 loading 1 on each factor, uncorrelated factors of unit
  variance, no residual variance: total variance 3, one third in each factor bucket.
\<close>

definition three_equal_factors :: "error + variance_decomposition" where
  "three_equal_factors =
     decompose_portfolio_variance [(''A'', 1)] [(''A'', loadings ''A'' 1 1 1)]
       [[1, 0, 0], [0, 1, 0], [0, 0, 1]] [(''A'', 0)]"

text \<open>
  One instrument of weight 1 loading 1 on the market factor only, market variance
  1/2268: the daily variance is 1/2268 and the annualised volatility is one third,
  33.333... percent.
\<close>

definition one_third_vol :: "error + variance_decomposition" where
  "one_third_vol =
     decompose_portfolio_variance [(''A'', 1)] [(''A'', loadings ''A'' 1 0 0)]
       [[1 / 2268, 0, 0], [0, 0, 0], [0, 0, 0]] [(''A'', 0)]"

text \<open>One instrument of weight 0: the total variance is 0, the degenerate case.\<close>

definition zero_weight_portfolio :: "error + variance_decomposition" where
  "zero_weight_portfolio =
     decompose_portfolio_variance [(''A'', 0)] [(''A'', loadings ''A'' 1 1 1)]
       [[1, 0, 0], [0, 1, 0], [0, 0, 1]] [(''A'', 0)]"

section \<open>Factor regression\<close>

text \<open>
  Dates are ordinals. A series is a list of (date, value) rows in index order, each date
  occurring once, and a missing value (NaN) is \<open>None\<close>. A row of the factor frame
  holds the three factor returns of one date; its risk-free column is not read by the
  functions modelled here.
\<close>

type_synonym date = int

type_synonym series = "(date \<times> real option) list"

record ff_row =
  ff_date :: date
  mkt_rf :: "real option"
  smb :: "real option"
  hml :: "real option"

text \<open>
  What the code reads from a fitted statsmodels model. The fit itself is statsmodels'
  code, so \<^verbatim>\<open>sm.OLS(y, X_const).fit()\<close> is a parameter of the model: it maps the response
  and the design matrix to a fit, or to \<open>None\<close> when it raises.
\<close>

record ols_model =
  params :: "real list"
  rsquared :: real
  resid :: "real list"

type_synonym ols = "real list \<Rightarrow> real option list list \<Rightarrow> ols_model option"

text \<open>\<^verbatim>\<open>xs[i:]\<close>: a negative start counts from the end and is clipped at the front.\<close>

definition py_slice_from :: "int \<Rightarrow> 'a list \<Rightarrow> 'a list" where
  "py_slice_from i xs =
     (if 0 \<le> i then drop (nat i) xs else drop (nat (int (length xs) + i)) xs)"

text \<open>\<^verbatim>\<open>np.var(y)\<close> with its default \<^verbatim>\<open>ddof=0\<close>: the mean squared deviation from the mean.\<close>

definition np_var :: "real list \<Rightarrow> real" where
  "np_var ys =
     (let m = sum_list ys / real (length ys)
      in sum_list (map (\<lambda>v. (v - m)\<^sup>2) ys) / real (length ys))"

definition empty_result :: "ticker \<Rightarrow> regression_result" where
  "empty_result t =
     \<lparr>ticker = t, beta_mkt = 0, beta_smb = 0, beta_hml = 0, alpha = 0, r_squared = 0,
      residual_variance = 0, n_observations = 0, sufficient_data = False\<rparr>"

text \<open>\<^verbatim>\<open>excess_returns.dropna().index.intersection(ff_df.index)\<close>, in the order of the series.\<close>

definition common_index :: "series \<Rightarrow> ff_row list \<Rightarrow> date list" where
  "common_index excess_returns ff_df =
     map fst (filter (\<lambda>(d, v). v \<noteq> None \<and> d \<in> set (map ff_date ff_df)) excess_returns)"

text \<open>Lines 252 to 253: \<^verbatim>\<open>if len(common) > window: common = common[-window:]\<close>.\<close>

definition trailing_window :: "int \<Rightarrow> date list \<Rightarrow> date list" where
  "trailing_window window common =
     (if int (length common) > window then py_slice_from (- window) common else common)"

text \<open>\<^verbatim>\<open>excess_returns.loc[common].values\<close>: the values at the given dates, in their order.\<close>

definition loc_values :: "series \<Rightarrow> date list \<Rightarrow> real list" where
  "loc_values s dates = concat (map (\<lambda>d. [v. (d', Some v) \<leftarrow> s, d' = d]) dates)"

text \<open>\<^verbatim>\<open>sm.add_constant(ff_df.loc[common, ["Mkt-RF", "SMB", "HML"]].values)\<close>.\<close>

definition design_matrix :: "ff_row list \<Rightarrow> date list \<Rightarrow> real option list list" where
  "design_matrix ff_df dates =
     concat (map (\<lambda>d. [[Some 1, mkt_rf r, smb r, hml r]. r \<leftarrow> ff_df, ff_date r = d]) dates)"

definition run_factor_regression ::
  "ols \<Rightarrow> ticker \<Rightarrow> series \<Rightarrow> ff_row list \<Rightarrow> int \<Rightarrow> int \<Rightarrow> regression_result" where
  "run_factor_regression OLS_fit t excess_returns ff_df window min_obs =
     (let common = common_index excess_returns ff_df
      in if length common = 0 then empty_result t
         else
           let common = trailing_window window (sort common);
               y = loc_values excess_returns common;
               X_const = design_matrix ff_df common;
               n_obs = length y
           in if int n_obs < min_obs
              then \<lparr>ticker = t, beta_mkt = 0, beta_smb = 0, beta_hml = 0, alpha = 0,
                    r_squared = 0,
                    residual_variance = (if length y > 0 then np_var y else 0),
                    n_observations = n_obs, sufficient_data = False\<rparr>
              else
                (case OLS_fit y X_const of
                   None \<Rightarrow> empty_result t
                 | Some model \<Rightarrow>
                     \<lparr>ticker = t, beta_mkt = params model ! 1, beta_smb = params model ! 2,
                      beta_hml = params model ! 3, alpha = params model ! 0,
                      r_squared = rsquared model,
                      residual_variance = np_var (resid model),
                      n_observations = n_obs, sufficient_data = True\<rparr>))"

text \<open>A fit that always raises, and two short histories on the dates 1, 2, 3.\<close>

definition failing_fit :: ols where
  "failing_fit y X = None"

definition three_days :: "ff_row list" where
  "three_days =
     [\<lparr>ff_date = 1, mkt_rf = Some 0, smb = Some 0, hml = Some 0\<rparr>,
      \<lparr>ff_date = 2, mkt_rf = Some 0, smb = Some 0, hml = Some 0\<rparr>,
      \<lparr>ff_date = 3, mkt_rf = Some 0, smb = Some 0, hml = Some 0\<rparr>]"


definition two_returns :: series where
  "two_returns = [(1, Some 1), (3, Some 3)]"

section \<open>Factor covariance\<close>








section \<open>Attribution tree\<close>













section \<open>Helper lemmas\<close>

lemma sum3: "(\<Sum>k<3. f k) = f 0 + f 1 + (f (2::nat) :: real)"
  by (simp add: numeral_3_eq_3 numeral_2_eq_2)

lemma py_round2_zero: "py_round2 0 = 0"
  by (simp add: py_round2_def)

lemma py_round2_error: "\<bar>py_round2 x - x\<bar> \<le> 1 / 200"
proof -
  define y where "y = x * 100"
  define f where "f = \<lfloor>y\<rfloor>"
  have f: "of_int f \<le> y" "y < of_int f + 1" unfolding f_def by linarith+
  have "\<bar>py_round2 x * 100 - y\<bar> \<le> 1 / 2"
    unfolding py_round2_def Let_def y_def[symmetric] f_def[symmetric]
    using f by (auto simp: abs_if)
  moreover have "py_round2 x - x = (py_round2 x * 100 - y) / 100" by (simp add: y_def)
  ultimately show ?thesis by (simp add: abs_if split: if_splits)
qed

lemma dict_get_distinct:
  "distinct (map fst d) \<Longrightarrow> (k, v) \<in> set d \<Longrightarrow> dict_get d k dflt = v"
  by (simp add: dict_get_def)

lemma decompose_cases:
  "decompose_portfolio_variance weights betas F rv =
     (case portfolio_total_var weights betas F rv of
        Inl e \<Rightarrow> Inl e
      | Inr tv \<Rightarrow>
          if tv \<le> 0 then Inr (zero_result (map fst weights) weights)
          else Inr (decompose_body (map fst weights) (map snd weights)
                 (projr (build_B (map fst weights) betas)) F
                 (np_diag (map (\<lambda>t. dict_get rv t 0) (map fst weights)))
                 (systematic_cov (projr (build_B (map fst weights) betas)) F) tv))"
  by (auto simp: decompose_portfolio_variance_def portfolio_total_var_def Let_def
      split: sum.splits)

lemma renormalize_nth4:
  "[f (renormalize [a, b, c, d] ! 0), f (renormalize [a, b, c, d] ! 1),
    f (renormalize [a, b, c, d] ! 2), f (renormalize [a, b, c, d] ! 3)]
   = map f (renormalize [a, b, c, d])"
  by (simp add: renormalize_def Let_def)

lemma decompose_body_pcts:
  "[market_pct (decompose_body tickers w B F D syscov tv),
    smb_pct (decompose_body tickers w B F D syscov tv),
    hml_pct (decompose_body tickers w B F D syscov tv),
    idiosyncratic_pct (decompose_body tickers w B F D syscov tv)]
   = map py_round2 (renormalize (clamped_pcts tv
        (bucket_vars (length tickers) w B F syscov D)))"
  unfolding decompose_body_def bucket_vars_def clamped_pcts_def Let_def
  by (simp add: renormalize_nth4 add.assoc del: One_nat_def)

lemma quad_form_add:
  "quad_form n w (\<lambda>i j. A i j + D i j) = quad_form n w A + quad_form n w D"
  by (simp add: quad_form_def sum.distrib algebra_simps)

lemma pure_contribution_nonneg: "0 \<le> pure_contribution n w B F k"
  by (simp add: pure_contribution_def)

lemma sum_list_renormalize:
  "0 < sum_list xs \<Longrightarrow> sum_list (renormalize xs) = 100"
proof -
  assume pos: "0 < sum_list xs"
  have "sum_list (map (\<lambda>p. p * (100 / sum_list xs)) xs) = sum_list xs * (100 / sum_list xs)"
    using sum_list_mult_const [of "\<lambda>p. p" "100 / sum_list xs" xs] by simp
  also have "\<dots> = 100" using pos by simp
  finally show ?thesis using pos by (simp only: renormalize_def Let_def if_True)
qed

lemma portfolio_total_var_InrD:
  assumes "portfolio_total_var weights betas F rv = Inr tv"
  shows "\<exists>B. build_B (map fst weights) betas = Inr B \<and> weights \<noteq> [] \<and> is_3x3 F
           \<and> tv = quad_form (length weights) (map snd weights) (systematic_cov B F)
                + quad_form (length weights) (map snd weights)
                    (np_diag (map (\<lambda>t. dict_get rv t 0) (map fst weights)))"
  using assms
  by (auto simp: portfolio_total_var_def Let_def quad_form_add split: sum.splits if_splits)

lemma decompose_nondegenerate:
  assumes "portfolio_total_var weights betas F rv = Inr tv" "0 < tv"
    and "build_B (map fst weights) betas = Inr B"
  shows "decompose_portfolio_variance weights betas F rv
         = Inr (decompose_body (map fst weights) (map snd weights) B F
                 (np_diag (map (\<lambda>t. dict_get rv t 0) (map fst weights)))
                 (systematic_cov B F) tv)"
  using assms by (simp add: decompose_cases)

lemma round4_error:
  "\<bar>py_round2 p0 + py_round2 p1 + py_round2 p2 + py_round2 p3 - (p0 + p1 + p2 + p3)\<bar> \<le> 1 / 50"
  using py_round2_error [of p0] py_round2_error [of p1] py_round2_error [of p2]
    py_round2_error [of p3]
  by linarith

lemmas variance_eval =
  dict_item_def dict_get_def is_3x3_def quad_form_def systematic_cov_def np_diag_def sum3
  pure_contribution_def loadings_def

lemma three_equal_total_var:
  "portfolio_total_var [(''A'', 1)] [(''A'', loadings ''A'' 1 1 1)]
       [[1, 0, 0], [0, 1, 0], [0, 0, 1]] [(''A'', 0)] = Inr 3"
  by (simp add: portfolio_total_var_def variance_eval)

lemma three_equal_buckets:
  "bucket_vars (Suc 0) [1] [[1, 1, 1]] [[1, 0, 0], [0, 1, 0], [0, 0, 1]]
     (systematic_cov [[1, 1, 1]] [[1, 0, 0], [0, 1, 0], [0, 0, 1]]) (np_diag [0])
   = [1, 1, 1, 0]"
  by (simp add: bucket_vars_def variance_eval apportion_def)

lemma three_equal_pcts:
  "map py_round2 (renormalize (clamped_pcts 3 [1, 1, 1, 0])) = [3333 / 100, 3333 / 100, 3333 / 100, 0]"
  by (simp add: clamped_pcts_def renormalize_def py_round2_def)

lemma three_equal_result:
  "three_equal_factors
   = Inr (decompose_body [''A''] [1] [[1, 1, 1]] [[1, 0, 0], [0, 1, 0], [0, 0, 1]]
            (np_diag [0]) (systematic_cov [[1, 1, 1]] [[1, 0, 0], [0, 1, 0], [0, 0, 1]]) 3)"
  unfolding three_equal_factors_def
  by (subst decompose_nondegenerate [OF three_equal_total_var])
     (simp_all add: dict_item_def dict_get_def loadings_def)

lemma decompose_body_vol:
  "total_annual_vol (decompose_body tickers w B F D syscov tv) = py_round2 (sqrt (tv * 252) * 100)"
  "total_daily_var (decompose_body tickers w B F D syscov tv) = tv"
  unfolding decompose_body_def Let_def by simp_all

lemma one_third_total_var:
  "portfolio_total_var [(''A'', 1)] [(''A'', loadings ''A'' 1 0 0)]
       [[1 / 2268, 0, 0], [0, 0, 0], [0, 0, 0]] [(''A'', 0)] = Inr (1 / 2268)"
  by (simp add: portfolio_total_var_def variance_eval)

lemma one_third_result:
  "one_third_vol
   = Inr (decompose_body [''A''] [1] [[1, 0, 0]] [[1 / 2268, 0, 0], [0, 0, 0], [0, 0, 0]]
            (np_diag [0])
            (systematic_cov [[1, 0, 0]] [[1 / 2268, 0, 0], [0, 0, 0], [0, 0, 0]]) (1 / 2268))"
  unfolding one_third_vol_def
  by (subst decompose_nondegenerate [OF one_third_total_var])
     (simp_all add: dict_item_def dict_get_def loadings_def)

lemma sqrt_ninth: "sqrt (1 / 9) = 1 / 3"
  by (rule real_sqrt_unique) (simp_all add: power2_eq_square)

lemma round_third: "py_round2 (100 / 3) = 3333 / 100"
  by (simp add: py_round2_def)

lemma decompose_body_cross:
  "0 < tv \<Longrightarrow>
   cross_factor_pct (decompose_body tickers w B F D syscov tv)
   = Some (py_round2 ((quad_form (length tickers) w syscov
        - (pure_contribution (length tickers) w B F 0 + pure_contribution (length tickers) w B F 1
           + pure_contribution (length tickers) w B F 2)) / tv * 100))"
  unfolding decompose_body_def Let_def by (simp add: add.assoc)

lemma apportion_eq:
  "0 \<le> ps \<Longrightarrow>
   apportion ps x p = (if ps = 0 then p else p + x * p / ps)"
  by (auto simp: apportion_def)

lemma renormalize_zero_head:
  "renormalize [0, 0, 0, m] ! 0 = 0 \<and> renormalize [0, 0, 0, m] ! 1 = 0
   \<and> renormalize [0, 0, 0, m] ! 2 = 0"
  by (simp add: renormalize_def Let_def)

lemma mixed_total_var:
  "portfolio_total_var [(''A'', 1)] [(''A'', loadings ''A'' 1 1 0)]
       [[1, 1 / 2, 0], [1 / 2, 1, 0], [0, 0, 1]] [(''A'', 0)] = Inr 3"
  by (simp add: portfolio_total_var_def variance_eval)

lemma mixed_build_B:
  "build_B (map fst [(''A'', 1::real)]) [(''A'', loadings ''A'' 1 1 0)] = Inr [[1, 1, 0]]"
  by (simp add: dict_item_def loadings_def)







lemma two_returns_usable:
  "trailing_window 252 (sort (common_index two_returns three_days)) = [1, 3]"
  by (simp add: common_index_def two_returns_def three_days_def trailing_window_def)

lemma two_returns_values: "loc_values two_returns [1, 3] = [1, 3]"
  by (simp add: loc_values_def two_returns_def)

lemma np_var_1_3: "np_var [1, 3] = 1"
  by (simp add: np_var_def power2_eq_square)

lemma renormalize_pos:
  "0 < sum_list xs \<Longrightarrow> renormalize xs = map (\<lambda>p. p * (100 / sum_list xs)) xs"
  by (simp only: renormalize_def Let_def if_True)

lemma round_list4_error:
  assumes "length ps = 4"
  shows "\<bar>sum_list (map py_round2 ps) - sum_list ps\<bar> \<le> 1 / 50"
proof -
  from assms obtain a b c d where ps: "ps = [a, b, c, d]"
    by (auto simp: length_Suc_conv eval_nat_numeral)
  show ?thesis
    using round4_error [of a b c d] by (simp add: ps add.assoc)
qed













section \<open>Claims\<close>

text \<open>
  C2. Whenever the total portfolio variance computed at line 70 is at most 0, the
  function returns the fixed fallback: each of the four buckets is 25, the annual
  volatility and the daily variance are 0, and every instrument has four zero
  contributions together with its input weight.
\<close>

theorem degenerate_fallback:
  assumes "distinct (map fst weights)"
    and "portfolio_total_var weights betas F rv = Inr tv"
    and "tv \<le> 0"
  shows "\<exists>r. decompose_portfolio_variance weights betas F rv = Inr r
           \<and> market_pct r = 25 \<and> smb_pct r = 25 \<and> hml_pct r = 25
           \<and> idiosyncratic_pct r = 25
           \<and> total_annual_vol r = 0 \<and> total_daily_var r = 0
           \<and> stock_contributions r =
               map (\<lambda>(t, x). (t, \<lparr>market_contribution = 0, smb_contribution = 0,
                                   hml_contribution = 0, idio_contribution = 0,
                                   weight = x\<rparr>)) weights"
proof -
  have "map (\<lambda>t. (t, \<lparr>market_contribution = 0, smb_contribution = 0,
                       hml_contribution = 0, idio_contribution = 0,
                       weight = dict_get weights t 0\<rparr>)) (map fst weights)
        = map (\<lambda>(t, x). (t, \<lparr>market_contribution = 0, smb_contribution = 0,
                                   hml_contribution = 0, idio_contribution = (0::real),
                                   weight = x\<rparr>)) weights"
    using assms(1) by (auto simp: dict_get_distinct)
  then show ?thesis
    using assms(2,3) by (simp add: decompose_cases zero_result_def)
qed

theorem degenerate_fallback_witness:
  "\<exists>r. decompose_portfolio_variance [(''A'', 0), (''B'', 0)]
          [(''A'', \<lparr>ticker = ''A'', beta_mkt = 1, beta_smb = 1, beta_hml = 1, alpha = 0,
                    r_squared = 1, residual_variance = 0, n_observations = 60,
                    sufficient_data = True\<rparr>),
           (''B'', \<lparr>ticker = ''B'', beta_mkt = 2, beta_smb = 0, beta_hml = 1, alpha = 0,
                    r_squared = 1, residual_variance = 3, n_observations = 60,
                    sufficient_data = True\<rparr>)]
          [[1, 0, 0], [0, 1, 0], [0, 0, 1]] [(''A'', 0), (''B'', 3)] = Inr r
       \<and> market_pct r = 25 \<and> idiosyncratic_pct r = 25 \<and> total_annual_vol r = 0
       \<and> map (weight \<circ> snd) (stock_contributions r) = [0, 0]"
proof -
  have tv: "portfolio_total_var [(''A'', 0), (''B'', 0)]
          [(''A'', \<lparr>ticker = ''A'', beta_mkt = 1, beta_smb = 1, beta_hml = 1, alpha = 0,
                    r_squared = 1, residual_variance = 0, n_observations = 60,
                    sufficient_data = True\<rparr>),
           (''B'', \<lparr>ticker = ''B'', beta_mkt = 2, beta_smb = 0, beta_hml = 1, alpha = 0,
                    r_squared = 1, residual_variance = 3, n_observations = 60,
                    sufficient_data = True\<rparr>)]
          [[1, 0, 0], [0, 1, 0], [0, 0, 1]] [(''A'', 0), (''B'', 3)] = Inr 0"
    by (simp add: portfolio_total_var_def dict_item_def quad_form_def is_3x3_def)
  have d: "distinct (map fst [(''A'', 0::real), (''B'', 0)])" by simp
  show ?thesis
    using degenerate_fallback [OF d tv] by auto
qed

text \<open>
  C1 fails as stated: with one third of the variance in each factor bucket the returned
  percentages are 33.33, 33.33, 33.33 and 0, which sum to 99.99.
\<close>

theorem buckets_sum_counterexample:
  "portfolio_total_var [(''A'', 1)] [(''A'', loadings ''A'' 1 1 1)]
       [[1, 0, 0], [0, 1, 0], [0, 0, 1]] [(''A'', 0)] = Inr 3
   \<and> \<not> isl three_equal_factors
   \<and> market_pct (projr three_equal_factors) = 3333 / 100
   \<and> smb_pct (projr three_equal_factors) = 3333 / 100
   \<and> hml_pct (projr three_equal_factors) = 3333 / 100
   \<and> idiosyncratic_pct (projr three_equal_factors) = 0
   \<and> \<not> \<bar>market_pct (projr three_equal_factors) + smb_pct (projr three_equal_factors)
          + hml_pct (projr three_equal_factors)
          + idiosyncratic_pct (projr three_equal_factors) - 100\<bar> \<le> 1 / 1000000"
proof -
  have "[market_pct (projr three_equal_factors), smb_pct (projr three_equal_factors),
         hml_pct (projr three_equal_factors), idiosyncratic_pct (projr three_equal_factors)]
        = [3333 / 100, 3333 / 100, 3333 / 100, 0]"
    unfolding three_equal_result sum.sel decompose_body_pcts
    using three_equal_buckets three_equal_pcts by simp
  then show ?thesis
    by (simp add: three_equal_total_var three_equal_result)
qed

text \<open>
  C9 fails as stated: with a daily variance of 1/2268 the value
  \<open>sqrt (total_daily_var \<times> 252) \<times> 100\<close> is 33.333..., and the returned volatility is 33.33.
\<close>

theorem annual_vol_counterexample:
  "\<not> isl one_third_vol
   \<and> total_daily_var (projr one_third_vol) = 1 / 2268
   \<and> total_annual_vol (projr one_third_vol) = 3333 / 100
   \<and> sqrt (total_daily_var (projr one_third_vol) * 252) * 100 = 100 / 3
   \<and> total_annual_vol (projr one_third_vol)
       \<noteq> sqrt (total_daily_var (projr one_third_vol) * 252) * 100"
  by (simp add: one_third_result decompose_body_vol sqrt_ninth round_third)

text \<open>
  C9 (as amended). For every non-degenerate decomposition the returned
  \<open>total_annual_vol\<close> is \<open>sqrt (total_daily_var \<times> 252) \<times> 100\<close> rounded to two decimals,
  where \<open>total_daily_var\<close> is the unrounded daily variance of the same result.
\<close>

theorem annual_vol_rounded:
  assumes "portfolio_total_var weights betas F rv = Inr tv" and "0 < tv"
  shows "\<exists>r. decompose_portfolio_variance weights betas F rv = Inr r
           \<and> total_daily_var r = tv
           \<and> total_annual_vol r = py_round2 (sqrt (total_daily_var r * 252) * 100)"
proof -
  from portfolio_total_var_InrD [OF assms(1)] obtain B
    where "build_B (map fst weights) betas = Inr B" by blast
  from decompose_nondegenerate [OF assms this] show ?thesis
    by (simp add: decompose_body_vol)
qed

theorem annual_vol_rounded_witness:
  "\<exists>r. decompose_portfolio_variance [(''A'', 1)] [(''A'', loadings ''A'' 1 0 0)]
       [[1 / 2268, 0, 0], [0, 0, 0], [0, 0, 0]] [(''A'', 0)] = Inr r
     \<and> total_daily_var r = 1 / 2268
     \<and> total_annual_vol r = py_round2 (sqrt (total_daily_var r * 252) * 100)"
proof -
  have pos: "(0::real) < 1 / 2268" by simp
  show ?thesis by (rule annual_vol_rounded [OF one_third_total_var pos])
qed

text \<open>
  C8 fails on the degenerate fallback: the dict \<^verbatim>\<open>_zero_result\<close> returns has no
  \<^verbatim>\<open>cross_factor_pct\<close> key, while the non-degenerate result of the same function has.
\<close>

theorem fallback_lacks_cross_factor_pct:
  "portfolio_total_var [(''A'', 0)] [(''A'', loadings ''A'' 1 1 1)]
       [[1, 0, 0], [0, 1, 0], [0, 0, 1]] [(''A'', 0)] = Inr 0
   \<and> \<not> isl zero_weight_portfolio
   \<and> cross_factor_pct (projr zero_weight_portfolio) = None
   \<and> \<not> isl three_equal_factors
   \<and> cross_factor_pct (projr three_equal_factors) = Some 0"
proof -
  have tv: "portfolio_total_var [(''A'', 0)] [(''A'', loadings ''A'' 1 1 1)]
       [[1, 0, 0], [0, 1, 0], [0, 0, 1]] [(''A'', 0)] = Inr 0"
    by (simp add: portfolio_total_var_def variance_eval)
  have z: "zero_weight_portfolio = Inr (zero_result [''A''] [(''A'', 0)])"
    unfolding zero_weight_portfolio_def by (simp add: decompose_cases tv)
  have c: "cross_factor_pct (projr three_equal_factors) = Some 0"
    unfolding three_equal_result sum.sel
    by (simp add: decompose_body_def Let_def variance_eval py_round2_zero)
  show ?thesis
    unfolding z using c by (simp add: tv zero_result_def three_equal_result)
qed

text \<open>
  C4. In the non-degenerate case the variance of factor bucket \<open>k\<close> is its clamped pure
  contribution plus \<open>cross \<times> pure k / \<Sigma>pure\<close>, where \<open>cross\<close> is the total systematic
  variance minus the sum of the three clamped pure contributions; when that sum is zero
  nothing is added to any bucket, the three factor buckets are returned as 0, and the
  cross term shows only in \<open>cross_factor_pct\<close>. The returned percentages are these
  bucket variances as percentages of total variance, clamped, renormalised and rounded.
\<close>

theorem cross_term_apportionment:
  assumes tv: "portfolio_total_var weights betas F rv = Inr tv"
    and pos: "0 < tv"
    and B: "build_B (map fst weights) betas = Inr B"
  shows "let n = length weights;
             w = map snd weights;
             pure = pure_contribution n w B F;
             sum_pure = pure 0 + pure 1 + pure 2;
             cross = quad_form n w (systematic_cov B F) - sum_pure;
             bucket = (\<lambda>k. if sum_pure = 0 then pure k
                            else pure k + cross * pure k / sum_pure);
             idio = quad_form n w (np_diag (map (\<lambda>t. dict_get rv t 0) (map fst weights)))
         in \<exists>r. decompose_portfolio_variance weights betas F rv = Inr r
              \<and> cross_factor_pct r = Some (py_round2 (cross / tv * 100))
              \<and> [market_pct r, smb_pct r, hml_pct r, idiosyncratic_pct r]
                  = map py_round2 (renormalize
                      [max (bucket 0 / tv * 100) 0, max (bucket 1 / tv * 100) 0,
                       max (bucket 2 / tv * 100) 0, max (idio / tv * 100) 0])
              \<and> (sum_pure = 0 \<longrightarrow> market_pct r = 0 \<and> smb_pct r = 0 \<and> hml_pct r = 0)"
proof -
  define n where "n = length weights"
  define w where "w = map snd weights"
  define D where "D = np_diag (map (\<lambda>t. dict_get rv t 0) (map fst weights))"
  define ps where "ps = pure_contribution n w B F 0 + pure_contribution n w B F 1
                     + pure_contribution n w B F 2"
  define x where "x = quad_form n w (systematic_cov B F) - ps"
  define bucket where "bucket = (\<lambda>k. if ps = 0 then pure_contribution n w B F k
                            else pure_contribution n w B F k
                                 + x * pure_contribution n w B F k / ps)"
  define r where "r = decompose_body (map fst weights) w B F D (systematic_cov B F) tv"
  have res: "decompose_portfolio_variance weights betas F rv = Inr r"
    unfolding r_def w_def D_def by (rule decompose_nondegenerate [OF tv pos B])
  have ps0: "0 \<le> ps"
    unfolding ps_def by (intro add_nonneg_nonneg pure_contribution_nonneg)
  have cr: "cross_factor_pct r = Some (py_round2 (x / tv * 100))"
    unfolding r_def x_def ps_def n_def by (simp add: decompose_body_cross [OF pos])
  have bv: "bucket_vars n w B F (systematic_cov B F) D
            = [bucket 0, bucket 1, bucket 2, quad_form n w D]"
    unfolding bucket_vars_def Let_def ps_def[symmetric] x_def[symmetric] bucket_def
    by (simp add: apportion_eq [OF ps0])
  have pcts: "[market_pct r, smb_pct r, hml_pct r, idiosyncratic_pct r]
        = map py_round2 (renormalize
            [max (bucket 0 / tv * 100) 0, max (bucket 1 / tv * 100) 0,
             max (bucket 2 / tv * 100) 0, max (quad_form n w D / tv * 100) 0])"
    unfolding r_def decompose_body_pcts length_map n_def[symmetric] bv
    by (simp add: clamped_pcts_def)
  have zero: "market_pct r = 0 \<and> smb_pct r = 0 \<and> hml_pct r = 0" if "ps = 0"
  proof -
    have "pure_contribution n w B F 0 = 0" "pure_contribution n w B F 1 = 0"
      "pure_contribution n w B F 2 = 0"
      using that pure_contribution_nonneg [of n w B F 0] pure_contribution_nonneg [of n w B F 1]
        pure_contribution_nonneg [of n w B F 2]
      unfolding ps_def by linarith+
    then have "bucket 0 = 0" "bucket 1 = 0" "bucket 2 = 0"
      by (simp_all add: bucket_def)
    with pcts renormalize_zero_head [of "max (quad_form n w D / tv * 100) 0"]
    show ?thesis
      by (simp add: py_round2_zero renormalize_nth4 [symmetric])
  qed
  show ?thesis
    unfolding Let_def n_def[symmetric] w_def[symmetric] D_def[symmetric] ps_def[symmetric]
      x_def[symmetric]
    using res cr pcts zero unfolding bucket_def
    by (intro exI [of _ r]) simp
qed

theorem cross_term_apportionment_witness:
  "\<exists>r. decompose_portfolio_variance [(''A'', 1)] [(''A'', loadings ''A'' 1 1 0)]
         [[1, 1 / 2, 0], [1 / 2, 1, 0], [0, 0, 1]] [(''A'', 0)] = Inr r
       \<and> cross_factor_pct r = Some (3333 / 100)
       \<and> [market_pct r, smb_pct r, hml_pct r, idiosyncratic_pct r] = [50, 50, 0, 0]"
proof -
  have pos: "(0::real) < 3" by simp
  have p: "pure_contribution (Suc 0) [1] [[1, 1, 0]] [[1, 1 / 2, 0], [1 / 2, 1, 0], [0, 0, 1]] 0 = 1"
    "pure_contribution (Suc 0) [1] [[1, 1, 0]] [[1, 1 / 2, 0], [1 / 2, 1, 0], [0, 0, 1]] 1 = 1"
    "pure_contribution (Suc 0) [1] [[1, 1, 0]] [[1, 1 / 2, 0], [1 / 2, 1, 0], [0, 0, 1]] (Suc 0) = 1"
    "pure_contribution (Suc 0) [1] [[1, 1, 0]] [[1, 1 / 2, 0], [1 / 2, 1, 0], [0, 0, 1]] 2 = 0"
    by (simp_all add: pure_contribution_def)
  have q: "quad_form (Suc 0) [1]
             (systematic_cov [[1, 1, 0]] [[1, 1 / 2, 0], [1 / 2, 1, 0], [0, 0, 1]]) = 3"
    "quad_form (Suc 0) [1] (np_diag [dict_get [(''A'', 0)] ''A'' 0]) = 0"
    by (simp_all add: variance_eval)
  have r: "py_round2 (100 / 3) = 3333 / 100" "py_round2 50 = 50"
    by (simp_all add: py_round2_def)
  have n: "map py_round2 (renormalize [50, 50, 0, 0]) = [50, 50, 0, 0]"
    by (simp add: renormalize_def py_round2_def)
  show ?thesis
    using cross_term_apportionment [OF mixed_total_var pos mixed_build_B]
    by (simp add: Let_def p q r n py_round2_zero)
qed



text \<open>
  C3 fails as stated: with two usable observations 1 and 3, \<open>min_obs = 2\<close> and a fit
  that raises, the result is \<^verbatim>\<open>_empty_result\<close>, whose residual variance is 0 and whose
  observation count is 0, not the variance 1 of the two returns and the count 2.
\<close>

theorem ols_failure_counterexample:
  "loc_values two_returns (trailing_window 252 (sort (common_index two_returns three_days)))
     = [1, 3]
   \<and> np_var [1, 3] = 1
   \<and> run_factor_regression failing_fit ''A'' two_returns three_days 252 2 = empty_result ''A''
   \<and> residual_variance (run_factor_regression failing_fit ''A'' two_returns three_days 252 2)
       \<noteq> np_var [1, 3]
   \<and> n_observations (run_factor_regression failing_fit ''A'' two_returns three_days 252 2)
       \<noteq> length [1 :: real, 3]"
proof -
  have "run_factor_regression failing_fit ''A'' two_returns three_days 252 2 = empty_result ''A''"
    unfolding run_factor_regression_def Let_def two_returns_usable two_returns_values
    by (simp add: failing_fit_def common_index_def two_returns_def three_days_def)
  then show ?thesis
    by (simp add: two_returns_usable two_returns_values np_var_1_3 empty_result_def)
qed

text \<open>
  C3 (as amended). If the fit raises after the minimum-observation check has passed,
  the function does not raise and returns \<^verbatim>\<open>_empty_result\<close>: all loadings, alpha and
  \<open>r_squared\<close> are 0, \<open>residual_variance\<close> is 0, \<open>n_observations\<close> is 0 and
  \<open>sufficient_data\<close> is false.
\<close>

theorem ols_failure_returns_empty_result:
  assumes "\<not> int (length (loc_values excess_returns
              (trailing_window window (sort (common_index excess_returns ff_df))))) < min_obs"
    and "OLS_fit
           (loc_values excess_returns
              (trailing_window window (sort (common_index excess_returns ff_df))))
           (design_matrix ff_df
              (trailing_window window (sort (common_index excess_returns ff_df)))) = None"
  shows "run_factor_regression OLS_fit t excess_returns ff_df window min_obs
         = \<lparr>ticker = t, beta_mkt = 0, beta_smb = 0, beta_hml = 0, alpha = 0, r_squared = 0,
            residual_variance = 0, n_observations = 0, sufficient_data = False\<rparr>"
  using assms by (simp add: run_factor_regression_def Let_def empty_result_def)

theorem ols_failure_returns_empty_result_witness:
  "run_factor_regression failing_fit ''A'' two_returns three_days 252 2
   = \<lparr>ticker = ''A'', beta_mkt = 0, beta_smb = 0, beta_hml = 0, alpha = 0, r_squared = 0,
      residual_variance = 0, n_observations = 0, sufficient_data = False\<rparr>"
proof -
  have a: "\<not> int (length (loc_values two_returns
              (trailing_window 252 (sort (common_index two_returns three_days))))) < 2"
    by (simp add: two_returns_usable two_returns_values)
  have b: "failing_fit
           (loc_values two_returns
              (trailing_window 252 (sort (common_index two_returns three_days))))
           (design_matrix three_days
              (trailing_window 252 (sort (common_index two_returns three_days)))) = None"
    by (simp add: failing_fit_def)
  show ?thesis
    using ols_failure_returns_empty_result
      [of two_returns 252 three_days 2 failing_fit "''A''", OF a b] .
qed

text \<open>
  C1 (as amended). In a non-degenerate call each bucket variance is converted to a
  percentage of total variance and clamped at 0. Whenever the four clamped percentages
  have a positive sum \<open>total_raw\<close> (the guard of line 116) each is multiplied by
  \<open>100 / total_raw\<close>, so that they sum to 100, and is then rounded to two decimals:
  the four returned percentages sum to 100 within 0.02. Nothing is said of a call whose
  clamped percentages sum to 0, where line 116 skips the renormalisation.
\<close>

theorem buckets_sum_to_100_up_to_rounding:
  assumes tv: "portfolio_total_var weights betas F rv = Inr tv"
    and pos: "0 < tv"
    and B: "build_B (map fst weights) betas = Inr B"
  shows "let n = length weights;
             w = map snd weights;
             pure = pure_contribution n w B F;
             pure_factor_sum = pure 0 + pure 1 + pure 2;
             cross_terms = quad_form n w (systematic_cov B F) - pure_factor_sum;
             idio_var = quad_form n w (np_diag (map (\<lambda>t. dict_get rv t 0) (map fst weights)));
             raw_pcts =
               [max (apportion pure_factor_sum cross_terms (pure 0) / tv * 100) 0,
                max (apportion pure_factor_sum cross_terms (pure 1) / tv * 100) 0,
                max (apportion pure_factor_sum cross_terms (pure 2) / tv * 100) 0,
                max (idio_var / tv * 100) 0];
             total_raw = sum_list raw_pcts
         in 0 < total_raw \<longrightarrow>
              (\<exists>r. decompose_portfolio_variance weights betas F rv = Inr r
                 \<and> [market_pct r, smb_pct r, hml_pct r, idiosyncratic_pct r]
                     = map (\<lambda>p. py_round2 (p * (100 / total_raw))) raw_pcts
                 \<and> sum_list (map (\<lambda>p. p * (100 / total_raw)) raw_pcts) = 100
                 \<and> \<bar>market_pct r + smb_pct r + hml_pct r + idiosyncratic_pct r - 100\<bar>
                      \<le> 1 / 50)"
proof -
  define n where "n = length weights"
  define w where "w = map snd weights"
  define D where "D = np_diag (map (\<lambda>t. dict_get rv t 0) (map fst weights))"
  define ps where "ps = pure_contribution n w B F 0 + pure_contribution n w B F 1
                     + pure_contribution n w B F 2"
  define x where "x = quad_form n w (systematic_cov B F) - ps"
  define raw where "raw =
               [max (apportion ps x (pure_contribution n w B F 0) / tv * 100) 0,
                max (apportion ps x (pure_contribution n w B F 1) / tv * 100) 0,
                max (apportion ps x (pure_contribution n w B F 2) / tv * 100) 0,
                max (quad_form n w D / tv * 100) 0]"
  define r where "r = decompose_body (map fst weights) w B F D (systematic_cov B F) tv"
  have res: "decompose_portfolio_variance weights betas F rv = Inr r"
    unfolding r_def w_def D_def by (rule decompose_nondegenerate [OF tv pos B])
  have raw_eq: "clamped_pcts tv (bucket_vars n w B F (systematic_cov B F) D) = raw"
    unfolding bucket_vars_def clamped_pcts_def Let_def raw_def ps_def[symmetric] x_def[symmetric]
    by simp
  have pcts: "[market_pct r, smb_pct r, hml_pct r, idiosyncratic_pct r]
              = map py_round2 (renormalize raw)"
    unfolding r_def decompose_body_pcts length_map n_def[symmetric] raw_eq by (rule refl)
  have goal: "\<exists>r. decompose_portfolio_variance weights betas F rv = Inr r
                 \<and> [market_pct r, smb_pct r, hml_pct r, idiosyncratic_pct r]
                     = map (\<lambda>p. py_round2 (p * (100 / sum_list raw))) raw
                 \<and> sum_list (map (\<lambda>p. p * (100 / sum_list raw)) raw) = 100
                 \<and> \<bar>market_pct r + smb_pct r + hml_pct r + idiosyncratic_pct r - 100\<bar>
                      \<le> 1 / 50"
    if total: "0 < sum_list raw"
  proof -
    have ren: "renormalize raw = map (\<lambda>p. p * (100 / sum_list raw)) raw"
      by (rule renormalize_pos [OF total])
    have hundred: "sum_list (renormalize raw) = 100"
      by (rule sum_list_renormalize [OF total])
    have "length raw = 4" by (simp add: raw_def)
    then have len: "length (renormalize raw) = 4"
      unfolding ren by simp
    have "market_pct r + smb_pct r + hml_pct r + idiosyncratic_pct r
          = sum_list [market_pct r, smb_pct r, hml_pct r, idiosyncratic_pct r]"
      by simp
    also have "\<dots> = sum_list (map py_round2 (renormalize raw))"
      by (simp only: pcts)
    finally have "\<bar>market_pct r + smb_pct r + hml_pct r + idiosyncratic_pct r - 100\<bar> \<le> 1 / 50"
      using round_list4_error [OF len] hundred by simp
    moreover have "[market_pct r, smb_pct r, hml_pct r, idiosyncratic_pct r]
                     = map (\<lambda>p. py_round2 (p * (100 / sum_list raw))) raw"
      unfolding pcts ren by (simp add: comp_def)
    moreover have "sum_list (map (\<lambda>p. p * (100 / sum_list raw)) raw) = 100"
      using hundred unfolding ren .
    ultimately show ?thesis using res by (intro exI [of _ r]) simp
  qed
  show ?thesis
    unfolding Let_def n_def[symmetric] w_def[symmetric] D_def[symmetric] ps_def[symmetric]
      x_def[symmetric] raw_def[symmetric]
    using goal by (intro impI)
qed

theorem buckets_sum_to_100_up_to_rounding_witness:
  "\<exists>r. decompose_portfolio_variance [(''A'', 1)] [(''A'', loadings ''A'' 1 1 1)]
         [[1, 0, 0], [0, 1, 0], [0, 0, 1]] [(''A'', 0)] = Inr r
       \<and> [market_pct r, smb_pct r, hml_pct r, idiosyncratic_pct r]
           = [3333 / 100, 3333 / 100, 3333 / 100, 0]
       \<and> \<bar>market_pct r + smb_pct r + hml_pct r + idiosyncratic_pct r - 100\<bar> \<le> 1 / 50"
proof -
  have pos: "(0::real) < 3" by simp
  have B: "build_B (map fst [(''A'', 1::real)]) [(''A'', loadings ''A'' 1 1 1)] = Inr [[1, 1, 1]]"
    by (simp add: dict_item_def loadings_def)
  have p: "pure_contribution (Suc 0) [1] [[1, 1, 1]] [[1, 0, 0], [0, 1, 0], [0, 0, 1]] 0 = 1"
    "pure_contribution (Suc 0) [1] [[1, 1, 1]] [[1, 0, 0], [0, 1, 0], [0, 0, 1]] (Suc 0) = 1"
    "pure_contribution (Suc 0) [1] [[1, 1, 1]] [[1, 0, 0], [0, 1, 0], [0, 0, 1]] 2 = 1"
    by (simp_all add: pure_contribution_def)
  have q: "quad_form (Suc 0) [1]
             (systematic_cov [[1, 1, 1]] [[1, 0, 0], [0, 1, 0], [0, 0, 1]]) = 3"
    "quad_form (Suc 0) [1] (np_diag [dict_get [(''A'', 0)] ''A'' 0]) = 0"
    by (simp_all add: variance_eval)
  have a: "apportion 3 0 1 = 1" by (simp add: apportion_def)
  show ?thesis
    using buckets_sum_to_100_up_to_rounding [OF three_equal_total_var pos B]
    by (simp add: Let_def p q a round_third py_round2_zero)
qed





end
